theory Spec2Isabelle
  imports Main
begin

section \<open>ini2json: the typed recorder \<open>typedValues.Add\<close>\<close>

text \<open>
  The program under study is the Go command \<open>ini2json\<close> (file \<open>ini2json.go\<close>).
  Its only non-trivial function is \<open>typedValues.Add\<close> (lines 148--161), which tries four
  parsers of the Go standard library on the raw value, in a fixed order, and appends what
  the first successful one returns to the slice stored under the key.

  Go strings are byte sequences; they are modelled as \<open>string\<close> (a list of 8-bit
  characters). The standard library functions that \<open>Add\<close> calls
  (\<open>big.Int.SetString\<close>, \<open>big.ParseFloat\<close>, \<open>strconv.ParseBool\<close>,
  \<open>json.Unmarshal\<close>, and the marshalers the encoder later calls on the stored values)
  are not part of the repository. They are modelled here after the behaviour of the Go
  standard library (Go 1.15 and later), at the level of the values they compute: word
  sizes and slice layouts of \<open>math/big\<close> are not represented, the numbers they stand
  for are.
\<close>

subsection \<open>Bytes\<close>

abbreviation byte :: "char \<Rightarrow> nat" where
  "byte c \<equiv> of_char c"

definition isDigit :: "char \<Rightarrow> bool" where
  \<comment> \<open>\<open>'0' <= ch && ch <= '9'\<close>\<close>
  "isDigit ch = (48 \<le> byte ch \<and> byte ch \<le> 57)"

definition digitVal :: "char \<Rightarrow> nat" where
  \<comment> \<open>\<open>ch - '0'\<close>\<close>
  "digitVal ch = byte ch - 48"

subsection \<open>\<open>math/big\<close>: scanning a sign and a base-10 mantissa\<close>

datatype scan_error =
    ErrEOF               \<comment> \<open>\<open>io.EOF\<close> from \<open>scanSign\<close> on empty input\<close>
  | ErrNoDigits          \<comment> \<open>\<open>errNoDigits\<close>: "number has no digits"\<close>
  | ErrTrailing          \<comment> \<open>"expected end of string"\<close>
  | ErrExponentRange     \<comment> \<open>\<open>strconv.ParseInt\<close> range error on the exponent digits\<close>
  | ErrExponentOverflow  \<comment> \<open>"exponent overflow" of \<open>Float.scan\<close>\<close>

text \<open>
  \<open>scanSign\<close> reads one byte: \<open>-\<close> gives a negative sign, \<open>+\<close> is consumed, any other
  byte is put back. On empty input the read fails with \<open>io.EOF\<close>.
\<close>

fun scanSign :: "string \<Rightarrow> scan_error + (bool \<times> string)" where
  "scanSign [] = Inl ErrEOF"
| "scanSign (ch # r) =
     (if ch = CHR ''-'' then Inr (True, r)
      else if ch = CHR ''+'' then Inr (False, r)
      else Inr (False, ch # r))"

text \<open>
  The digit loop of \<open>nat.scan\<close> for base 10 (no prefix and no \<open>_\<close> separators: both exist
  only for base 0). A \<open>.\<close> is accepted once when \<open>fracOk\<close> holds and its position
  \<open>dp\<close> is recorded; every digit multiplies the accumulated value by ten; the first
  other byte ends the loop and is put back. The arguments after the input are \<open>fracOk\<close>,
  the value \<open>z\<close>, the digit count \<open>count\<close> and \<open>dp\<close> (\<open>-1\<close> while no point was seen).
\<close>

fun nat_scan_loop :: "string \<Rightarrow> bool \<Rightarrow> nat \<Rightarrow> int \<Rightarrow> int \<Rightarrow> nat \<times> int \<times> int \<times> string" where
  "nat_scan_loop [] fracOk z count dp = (z, count, dp, [])"
| "nat_scan_loop (ch # r) fracOk z count dp =
     (if ch = CHR ''.'' \<and> fracOk then nat_scan_loop r False z count count
      else if isDigit ch then nat_scan_loop r fracOk (z * 10 + digitVal ch) (count + 1) dp
      else (z, count, dp, ch # r))"

text \<open>
  \<open>nat.scan(r, 10, fracOk)\<close>: the value, the count (the number of digits, or minus the
  number of fractional digits when a point was seen) and the unread input;
  \<open>errNoDigits\<close> when no digit was read.
\<close>

definition nat_scan :: "string \<Rightarrow> bool \<Rightarrow> scan_error + (nat \<times> int \<times> string)" where
  "nat_scan r fracOk =
     (case nat_scan_loop r fracOk 0 0 (-1) of
        (z, count, dp, r') \<Rightarrow>
          if count = 0 then Inl ErrNoDigits
          else Inr (z, if dp \<ge> 0 then dp - count else count, r'))"

subsection \<open>\<open>big.Int.SetString(s, 10)\<close>\<close>

text \<open>
  \<open>Int.scan\<close> reads the sign and the mantissa (\<open>fracOk = false\<close>); zero has no sign.
  \<open>SetString\<close> (through \<open>setFromScanner\<close>) succeeds when the scan succeeds and the whole
  string was consumed. The result is the pair \<open>(z, ok)\<close> of Go, as an option.
\<close>

definition Int_scan :: "string \<Rightarrow> scan_error + (int \<times> string)" where
  "Int_scan s =
     (case scanSign s of
        Inl e \<Rightarrow> Inl e
      | Inr (neg, r) \<Rightarrow>
          (case nat_scan r False of
             Inl e \<Rightarrow> Inl e
           | Inr (z, count, r') \<Rightarrow> Inr (if neg then - int z else int z, r')))"

definition big_Int_SetString :: "string \<Rightarrow> int option" where
  "big_Int_SetString s =
     (case Int_scan s of
        Inl e \<Rightarrow> None
      | Inr (z, r) \<Rightarrow> if r = [] then Some z else None)"

subsection \<open>\<open>big.Float\<close> values and rounding\<close>

text \<open>
  A \<open>big.Float\<close> is \<open>sign \<times> 0.mantissa \<times> 2 ^ exp\<close> with a form that is zero, finite or
  infinite. \<open>Add\<close> creates every \<open>Float\<close> with precision 256 and rounding mode
  \<open>ToNearestEven\<close>, so a finite value is kept as its 256-bit mantissa
  \<open>2 ^ 255 \<le> mant < 2 ^ 256\<close> and Go's exponent: \<open>Float_finite neg mant exp\<close> stands for
  \<open>(-1) ^ neg * mant * 2 ^ (exp - 256)\<close>.
\<close>

datatype Float = Float_zero bool | Float_finite bool nat int | Float_inf bool

definition MaxExp :: int where
  "MaxExp = 2147483647"   \<comment> \<open>\<open>math.MaxInt32\<close>\<close>

definition MinExp :: int where
  "MinExp = - 2147483648"   \<comment> \<open>\<open>math.MinInt32\<close>\<close>

fun bitLen :: "nat \<Rightarrow> nat" where
  \<comment> \<open>\<open>nat.bitLen\<close>: the number of bits of \<open>n\<close>\<close>
  "bitLen n = (if n = 0 then 0 else Suc (bitLen (n div 2)))"

text \<open>
  \<open>flog2 n d\<close> is \<open>\<lfloor>log\<^sub>2 (n / d)\<rfloor>\<close> for positive \<open>n\<close> and \<open>d\<close>: the difference of the
  bit lengths, or one less.
\<close>

definition flog2 :: "nat \<Rightarrow> nat \<Rightarrow> int" where
  "flog2 n d =
     (let k = int (bitLen n) - int (bitLen d)
      in if d * 2 ^ nat k \<le> n * 2 ^ nat (- k) then k else k - 1)"

text \<open>Division rounded to the nearest integer, ties to even.\<close>

definition rne_div :: "nat \<Rightarrow> nat \<Rightarrow> nat" where
  "rne_div num den =
     (let q = num div den; r = num mod den
      in if 2 * r < den then q
         else if den < 2 * r then q + 1
         else if even q then q else q + 1)"

text \<open>
  \<open>rne_at n d q\<close> is \<open>n / d / 2 ^ q\<close> rounded to the nearest integer, ties to even.
\<close>

definition rne_at :: "nat \<Rightarrow> nat \<Rightarrow> int \<Rightarrow> nat" where
  "rne_at n d q = rne_div (n * 2 ^ nat (- q)) (d * 2 ^ nat q)"

text \<open>
  \<open>Float.setExpAndRound\<close> followed by \<open>Float.round\<close> in mode \<open>ToNearestEven\<close>, for the
  exact positive value \<open>n / d * 2 ^ e\<close>: the exponent of the exact value is checked
  against \<open>MinExp\<close> (underflow to zero) and \<open>MaxExp\<close> (overflow to infinity), the
  mantissa is rounded to \<open>prec\<close> bits, and a carry out of the mantissa increments the
  exponent (or gives infinity at \<open>MaxExp\<close>). The result is \<open>Inr (mant, exp)\<close> with
  \<open>2 ^ (prec - 1) \<le> mant < 2 ^ prec\<close>, \<open>Inl False\<close> for underflow and \<open>Inl True\<close> for overflow.
\<close>

definition round_prec :: "nat \<Rightarrow> nat \<Rightarrow> nat \<Rightarrow> int \<Rightarrow> bool + (nat \<times> int)" where
  "round_prec prec n d e =
     (let l = flog2 n d;
          ex = l + e + 1;
          m = rne_at n d (l + 1 - int prec)
      in if ex < MinExp then Inl False
         else if MaxExp < ex then Inl True
         else if m < 2 ^ prec then Inr (m, ex)
         else if MaxExp \<le> ex then Inl True
         else Inr (m div 2, ex + 1))"

definition to_Float :: "bool \<Rightarrow> bool + (nat \<times> int) \<Rightarrow> Float" where
  "to_Float neg r =
     (case r of
        Inl overflow \<Rightarrow> if overflow then Float_inf neg else Float_zero neg
      | Inr (m, ex) \<Rightarrow> Float_finite neg m ex)"

subsection \<open>Powers of five\<close>

text \<open>
  \<open>Float.pow5\<close> computes \<open>5 ^ n\<close> in a \<open>Float\<close> of precision 320 (the precision of the
  parsed number plus 64): exactly from the table \<open>pow5tab\<close> up to \<open>5 ^ 27\<close>, and by
  repeated squaring of a factor of precision 384 beyond, each product rounded. Every
  value in the loop is at least five, so it is positive and cannot underflow; it is
  kept as \<open>Some (m, e)\<close> for \<open>m * 2 ^ e\<close>, or \<open>None\<close> for \<open>+Inf\<close> after an exponent overflow
  (\<open>Float.Mul\<close> with an infinite factor gives infinity).
\<close>

definition pos_Mul :: "nat \<Rightarrow> (nat \<times> int) option \<Rightarrow> (nat \<times> int) option \<Rightarrow> (nat \<times> int) option" where
  "pos_Mul prec x y =
     (case (x, y) of
        (Some (m1, e1), Some (m2, e2)) \<Rightarrow>
          (case round_prec prec (m1 * m2) 1 (e1 + e2) of
             Inr (m, ex) \<Rightarrow> Some (m, ex - int prec)
           | Inl overflow \<Rightarrow> None)
      | _ \<Rightarrow> None)"

fun pow5_loop :: "nat \<Rightarrow> (nat \<times> int) option \<Rightarrow> (nat \<times> int) option \<Rightarrow> (nat \<times> int) option" where
  \<comment> \<open>\<open>for n > 0 { if n&1 != 0 { z.Mul(z, f) }; f.Mul(f, f); n >>= 1 }\<close>\<close>
  "pow5_loop n z f =
     (if n = 0 then z
      else pow5_loop (n div 2) (if odd n then pos_Mul 320 z f else z) (pos_Mul 384 f f))"

definition pow5 :: "nat \<Rightarrow> (nat \<times> int) option" where
  "pow5 n =
     (if n \<le> 27 then Some (5 ^ n, 0)
      else pow5_loop (n - 27) (Some (5 ^ 27, 0)) (Some (5, 0)))"

subsection \<open>\<open>big.ParseFloat(s, 10, 256, big.ToNearestEven)\<close>\<close>

text \<open>
  \<open>scanExponent(r, base2ok = true, sepOk = false)\<close>: no exponent when the next byte is
  not one of \<open>e E p P\<close> (the byte is put back); otherwise an optional sign and at least
  one digit, converted by \<open>strconv.ParseInt(digits, 10, 64)\<close>, which fails outside the
  range of \<open>int64\<close>. The result is the exponent, its base (10 for \<open>e\<close>, 2 for \<open>p\<close>) and
  the unread input.
\<close>

definition digitsVal :: "string \<Rightarrow> nat" where
  "digitsVal ds = foldl (\<lambda>z ch. z * 10 + digitVal ch) 0 ds"

definition scanExponent :: "string \<Rightarrow> scan_error + (int \<times> nat \<times> string)" where
  "scanExponent r =
     (case r of
        [] \<Rightarrow> Inr (0, 10, [])
      | ch # r1 \<Rightarrow>
          if ch \<notin> {CHR ''e'', CHR ''E'', CHR ''p'', CHR ''P''} then Inr (0, 10, ch # r1)
          else
            let base = (if ch \<in> {CHR ''e'', CHR ''E''} then 10 else 2);
                neg = (r1 \<noteq> [] \<and> hd r1 = CHR ''-'');
                r2 = (if r1 \<noteq> [] \<and> hd r1 \<in> {CHR ''+'', CHR ''-''} then tl r1 else r1);
                digits = takeWhile isDigit r2;
                v = (if neg then - int (digitsVal digits) else int (digitsVal digits))
            in if digits = [] then Inl ErrNoDigits
               else if v < - (2 ^ 63) \<or> 2 ^ 63 - 1 < v then Inl ErrExponentRange
               else Inr (v, base, dropWhile isDigit r2))"

text \<open>
  \<open>Float.scan\<close> for base 10 and precision 256: sign, mantissa with an optional point,
  exponent. A zero mantissa gives a signed zero. Otherwise the point and a decimal
  exponent contribute to a power of two \<open>exp2\<close> and a power of five \<open>exp5\<close>, a binary
  exponent only to \<open>exp2\<close>; \<open>exp2\<close> (the exponent of the mantissa normalised to a
  fraction) must lie in \<open>[MinExp, MaxExp]\<close>; the power of five is applied by one
  multiplication or division, rounded to 256 bits. (Go computes \<open>exp2\<close> and \<open>exp5\<close>
  in \<open>int64\<close>; the sums cannot wrap into the accepted range for an input of fewer
  than \<open>2 ^ 62\<close> bytes, so they are written with unbounded integers.)
\<close>

definition Float_scan :: "string \<Rightarrow> scan_error + (Float \<times> string)" where
  "Float_scan s =
     (case scanSign s of
        Inl e \<Rightarrow> Inl e
      | Inr (neg, r1) \<Rightarrow>
     (case nat_scan r1 True of
        Inl e \<Rightarrow> Inl e
      | Inr (mant, fcount, r2) \<Rightarrow>
     (case scanExponent r2 of
        Inl e \<Rightarrow> Inl e
      | Inr (exp, ebase, r3) \<Rightarrow>
          if mant = 0 then Inr (Float_zero neg, r3)
          else
            let d = (if fcount < 0 then fcount else 0);
                exp2 = int (bitLen mant) + d + exp;
                exp5 = d + (if ebase = 10 then exp else 0);
                e = exp2 - int (bitLen mant)
            in if \<not> (MinExp \<le> exp2 \<and> exp2 \<le> MaxExp) then Inl ErrExponentOverflow
               else if exp5 = 0 then Inr (to_Float neg (round_prec 256 mant 1 e), r3)
               else if exp5 < 0 then
                 (case pow5 (nat (- exp5)) of
                    Some (m5, e5) \<Rightarrow> Inr (to_Float neg (round_prec 256 mant m5 (e - e5)), r3)
                  | None \<Rightarrow> Inr (Float_zero neg, r3))
               else
                 (case pow5 (nat exp5) of
                    Some (m5, e5) \<Rightarrow> Inr (to_Float neg (round_prec 256 (mant * m5) 1 (e + e5)), r3)
                  | None \<Rightarrow> Inr (Float_inf neg, r3)))))"

text \<open>
  \<open>Float.Parse\<close>: the four spellings of infinity that \<open>scan\<close> does not handle come
  first; otherwise the scan must succeed and consume the whole string.
\<close>

definition big_ParseFloat :: "string \<Rightarrow> scan_error + Float" where
  "big_ParseFloat s =
     (if s = ''Inf'' \<or> s = ''inf'' then Inr (Float_inf False)
      else if length s = 4 \<and> (hd s = CHR ''+'' \<or> hd s = CHR ''-'')
              \<and> (tl s = ''Inf'' \<or> tl s = ''inf'') then Inr (Float_inf (hd s = CHR ''-''))
      else
        (case Float_scan s of
           Inl e \<Rightarrow> Inl e
         | Inr (f, r) \<Rightarrow> if r = [] then Inr f else Inl ErrTrailing))"

subsection \<open>\<open>strconv.ParseBool\<close>\<close>

text \<open>The function is a switch over twelve literal spellings; anything else is an error.\<close>

definition strconv_ParseBool :: "string \<Rightarrow> bool option" where
  "strconv_ParseBool str =
     (if str \<in> {''1'', ''t'', ''T'', ''true'', ''TRUE'', ''True''} then Some True
      else if str \<in> {''0'', ''f'', ''F'', ''false'', ''FALSE'', ''False''} then Some False
      else None)"

subsection \<open>Dynamic values\<close>

text \<open>
  A \<open>float64\<close> is kept as sign, integer mantissa and exponent: \<open>F64 neg m e\<close> stands
  for \<open>(-1) ^ neg * m * 2 ^ e\<close>, with \<open>2 ^ 52 \<le> m < 2 ^ 53\<close> and \<open>-1074 \<le> e \<le> 971\<close> for
  a normal number, and \<open>m < 2 ^ 52\<close>, \<open>e = -1074\<close> for a subnormal number or zero. The
  values that reach \<open>Add\<close> are finite.
\<close>

datatype float64 = F64 bool nat int

text \<open>
  \<open>jsval\<close> has type \<open>interface{}\<close>. The dynamic types it can hold in \<open>Add\<close> are
  \<open>*big.Int\<close>, \<open>*bigFloat\<close>, \<open>bool\<close>, \<open>string\<close>, and what \<open>json.Unmarshal\<close> stores
  into an empty interface: \<open>nil\<close>, \<open>bool\<close>, \<open>float64\<close>, \<open>string\<close>,
  \<open>[]interface{}\<close> and \<open>map[string]interface{}\<close>. A map is kept as the list of its
  entries, one per key.
\<close>

datatype iface =
    GoNil
  | GoBigInt int
  | GoBigFloat Float
  | GoBool bool
  | GoFloat64 float64
  | GoString string
  | GoSlice "iface list"
  | GoMap "(string \<times> iface) list"

fun map_assign :: "(string \<times> 'a) list \<Rightarrow> string \<Rightarrow> 'a \<Rightarrow> (string \<times> 'a) list" where
  \<comment> \<open>\<open>m[k] = v\<close>\<close>
  "map_assign [] k v = [(k, v)]"
| "map_assign ((k', v') # m) k v =
     (if k' = k then (k, v) # m else (k', v') # map_assign m k v)"

subsection \<open>\<open>strconv.ParseFloat(s, 64)\<close> on a JSON number\<close>

text \<open>
  Rounding of the exact positive value \<open>n / d\<close> to the nearest \<open>float64\<close>, ties to
  even, with gradual underflow; \<open>None\<close> when the rounded value exceeds the largest
  \<open>float64\<close> (Go then returns \<open>\<plusminus>Inf\<close> and \<open>ErrRange\<close>).
\<close>

definition round_float64 :: "nat \<Rightarrow> nat \<Rightarrow> (nat \<times> int) option" where
  "round_float64 n d =
     (let q = max (flog2 n d - 52) (- 1074);
          m = rne_at n d q;
          m' = (if m = 2 ^ 53 then 2 ^ 52 else m);
          q' = (if m = 2 ^ 53 then q + 1 else q)
      in if 971 < q' then None else Some (m', q'))"

text \<open>
  The decoder hands \<open>convertNumber\<close> a literal that the scanner accepted, of the form
  \<open>-? digits (. digits)? ((e|E) (+|-)? digits)?\<close>. \<open>strconv\<close> reads the digits of the
  mantissa and the exponent; the exponent accumulates only while it is below 10000
  (\<open>if e < 10000 { e = e*10 + digit }\<close>), which is beyond the range of \<open>float64\<close>
  in either direction. The result is the correctly rounded value, or a range error.
\<close>

definition expSat :: "string \<Rightarrow> nat" where
  "expSat ds = foldl (\<lambda>e ch. if e < 10000 then e * 10 + digitVal ch else e) 0 ds"

definition atof_round :: "bool \<Rightarrow> nat \<Rightarrow> int \<Rightarrow> float64 option" where
  \<comment> \<open>the \<open>float64\<close> nearest to \<open>(-1) ^ neg * mant * 10 ^ e10\<close>\<close>
  "atof_round neg mant e10 =
     (if mant = 0 then Some (F64 neg 0 (- 1074))
      else
        (case round_float64 (mant * 10 ^ nat e10) (10 ^ nat (- e10)) of
           None \<Rightarrow> None
         | Some (m, q) \<Rightarrow> Some (F64 neg m q)))"

definition atof_exp :: "string \<Rightarrow> int" where
  \<comment> \<open>the exponent part: empty, or \<open>e\<close> or \<open>E\<close>, an optional sign and digits\<close>
  "atof_exp r =
     (case r of
        [] \<Rightarrow> 0
      | e # r1 \<Rightarrow>
          (case r1 of
             [] \<Rightarrow> 0
           | c # r2 \<Rightarrow>
               if c = CHR ''-'' then - int (expSat (takeWhile isDigit r2))
               else if c = CHR ''+'' then int (expSat (takeWhile isDigit r2))
               else int (expSat (takeWhile isDigit r1))))"

definition atof_fraction :: "bool \<Rightarrow> string \<Rightarrow> string \<Rightarrow> float64 option" where
  \<comment> \<open>after the digits \<open>ip\<close> of the integer part: an optional point and fraction digits\<close>
  "atof_fraction neg ip r =
     (case r of
        [] \<Rightarrow> atof_round neg (digitsVal ip) 0
      | c # r1 \<Rightarrow>
          if c = CHR ''.''
          then atof_round neg (digitsVal (ip @ takeWhile isDigit r1))
                 (atof_exp (dropWhile isDigit r1) - int (length (takeWhile isDigit r1)))
          else atof_round neg (digitsVal ip) (atof_exp r))"

definition atof_unsigned :: "bool \<Rightarrow> string \<Rightarrow> float64 option" where
  "atof_unsigned neg s = atof_fraction neg (takeWhile isDigit s) (dropWhile isDigit s)"

definition atof64 :: "string \<Rightarrow> float64 option" where
  "atof64 s =
     (case s of
        [] \<Rightarrow> atof_unsigned False []
      | c # r \<Rightarrow> if c = CHR ''-'' then atof_unsigned True r else atof_unsigned False s)"

subsection \<open>UTF-8 and string literals of JSON\<close>

fun bytes_in :: "(nat \<times> nat) list \<Rightarrow> string \<Rightarrow> bool" where
  "bytes_in [] s = True"
| "bytes_in ((lo, hi) # rs) [] = False"
| "bytes_in ((lo, hi) # rs) (c # s) = (lo \<le> byte c \<and> byte c \<le> hi \<and> bytes_in rs s)"

text \<open>
  \<open>utf8.DecodeRune\<close> on a string whose first byte is not ASCII: the length of the
  well-formed encoding at its head, or 0 where Go returns \<open>(RuneError, 1)\<close>.
\<close>

definition utf8_len :: "string \<Rightarrow> nat" where
  "utf8_len s =
     (case s of
        [] \<Rightarrow> 0
      | c # r \<Rightarrow>
          let b = byte c
          in if 194 \<le> b \<and> b \<le> 223 then (if bytes_in [(128, 191)] r then 2 else 0)
             else if b = 224 then (if bytes_in [(160, 191), (128, 191)] r then 3 else 0)
             else if 225 \<le> b \<and> b \<le> 236 then (if bytes_in [(128, 191), (128, 191)] r then 3 else 0)
             else if b = 237 then (if bytes_in [(128, 159), (128, 191)] r then 3 else 0)
             else if 238 \<le> b \<and> b \<le> 239 then (if bytes_in [(128, 191), (128, 191)] r then 3 else 0)
             else if b = 240 then (if bytes_in [(144, 191), (128, 191), (128, 191)] r then 4 else 0)
             else if 241 \<le> b \<and> b \<le> 243 then (if bytes_in [(128, 191), (128, 191), (128, 191)] r then 4 else 0)
             else if b = 244 then (if bytes_in [(128, 143), (128, 191), (128, 191)] r then 4 else 0)
             else 0)"

definition EncodeRune :: "nat \<Rightarrow> string" where
  \<comment> \<open>\<open>utf8.EncodeRune\<close>; surrogates and values beyond \<open>U+10FFFF\<close> become \<open>U+FFFD\<close>\<close>
  "EncodeRune r =
     (if r \<le> 127 then [char_of r]
      else if r \<le> 2047 then [char_of (192 + r div 64), char_of (128 + r mod 64)]
      else if 1114111 < r \<or> (55296 \<le> r \<and> r \<le> 57343) then [CHR 0xEF, CHR 0xBF, CHR 0xBD]
      else if r \<le> 65535 then
        [char_of (224 + r div 4096), char_of (128 + r div 64 mod 64), char_of (128 + r mod 64)]
      else
        [char_of (240 + r div 262144), char_of (128 + r div 4096 mod 64),
         char_of (128 + r div 64 mod 64), char_of (128 + r mod 64)])"

definition hexVal :: "char \<Rightarrow> nat option" where
  "hexVal c =
     (let b = byte c
      in if 48 \<le> b \<and> b \<le> 57 then Some (b - 48)
         else if 97 \<le> b \<and> b \<le> 102 then Some (b - 97 + 10)
         else if 65 \<le> b \<and> b \<le> 70 then Some (b - 65 + 10)
         else None)"

text \<open>\<open>getu4\<close>: the code unit of an escape \<open>\uXXXX\<close> at the head of the input, or \<open>None\<close> (Go: -1).\<close>

definition getu4 :: "string \<Rightarrow> nat option" where
  "getu4 s =
     (case s of
        b # u # h1 # h2 # h3 # h4 # r \<Rightarrow>
          if b \<noteq> CHR 0x5C \<or> u \<noteq> CHR ''u'' then None
          else
            (case (hexVal h1, hexVal h2, hexVal h3, hexVal h4) of
               (Some x1, Some x2, Some x3, Some x4) \<Rightarrow> Some (((x1 * 16 + x2) * 16 + x3) * 16 + x4)
             | _ \<Rightarrow> None)
      | _ \<Rightarrow> None)"

definition utf16_DecodeRune :: "nat \<Rightarrow> nat option \<Rightarrow> nat" where
  \<comment> \<open>a high surrogate followed by a low surrogate, or \<open>U+FFFD\<close>\<close>
  "utf16_DecodeRune r1 r2 =
     (case r2 of
        Some lo \<Rightarrow>
          if 55296 \<le> r1 \<and> r1 < 56320 \<and> 56320 \<le> lo \<and> lo < 57344
          then (r1 - 55296) * 1024 + (lo - 56320) + 65536
          else 65533
      | None \<Rightarrow> 65533)"

text \<open>
  \<open>unquote\<close>, on the bytes between the quotes of a literal: escapes are replaced,
  \<open>\u\<close> escapes are encoded in UTF-8 (a surrogate pair as one rune, a lone surrogate
  as \<open>U+FFFD\<close>), every byte that is not part of well-formed UTF-8 becomes \<open>U+FFFD\<close>;
  a raw quote, a control byte or an unknown escape makes it fail.
\<close>

fun unquote :: "string \<Rightarrow> string option" where
  "unquote [] = Some []"
| "unquote (c # s) =
     (if c = CHR 0x5C then
        (case s of
           [] \<Rightarrow> None
         | e # s' \<Rightarrow>
             if e \<in> {CHR 0x22, CHR 0x5C, CHR ''/'', CHR 0x27} then map_option ((#) e) (unquote s')
             else if e = CHR ''b'' then map_option ((#) (CHR 0x08)) (unquote s')
             else if e = CHR ''f'' then map_option ((#) (CHR 0x0C)) (unquote s')
             else if e = CHR ''n'' then map_option ((#) (CHR 0x0A)) (unquote s')
             else if e = CHR ''r'' then map_option ((#) (CHR 0x0D)) (unquote s')
             else if e = CHR ''t'' then map_option ((#) (CHR 0x09)) (unquote s')
             else if e = CHR ''u'' then
               (case getu4 (c # s) of
                  None \<Rightarrow> None
                | Some rr \<Rightarrow>
                    if 55296 \<le> rr \<and> rr < 57344 then
                      (if utf16_DecodeRune rr (getu4 (drop 4 s')) \<noteq> 65533
                       then map_option ((@) (EncodeRune (utf16_DecodeRune rr (getu4 (drop 4 s')))))
                              (unquote (drop 10 s'))
                       else map_option ((@) (EncodeRune 65533)) (unquote (drop 4 s')))
                    else map_option ((@) (EncodeRune rr)) (unquote (drop 4 s')))
             else None)
      else if c = CHR 0x22 \<or> byte c < 32 then None
      else if byte c < 128 then map_option ((#) c) (unquote s)
      else if utf8_len (c # s) = 0 then map_option ((@) (EncodeRune 65533)) (unquote s)
      else map_option ((@) (take (utf8_len (c # s)) (c # s))) (unquote (drop (utf8_len (c # s) - 1) s)))"

subsection \<open>\<open>json.Unmarshal\<close> into an empty interface\<close>

text \<open>
  \<open>json.Unmarshal\<close> first runs the scanner of \<open>encoding/json\<close> over the whole input
  (\<open>checkValid\<close>) and then decodes the value. The scanner is a state machine that
  consumes one byte at a time: \<open>step\<close> is the current state function, \<open>parseState\<close>
  the stack of open objects and arrays, \<open>endTop\<close> is set once the top-level value is
  complete. The model runs the same machine and, in the same pass, builds the value
  the decoder would build: every stack entry carries the members read so far, \<open>lit\<close>
  holds the bytes of the literal being read, and \<open>topValue\<close> receives the top-level
  value. A syntax error (\<open>scanError\<close>) is \<open>None\<close>. A number outside the range of
  \<open>float64\<close> makes the decoder record an \<open>UnmarshalTypeError\<close>, which
  \<open>Unmarshal\<close> returns after decoding the rest: the call fails either way, so the
  model fails at the number.
\<close>

datatype scan_state =
    BeginValue | BeginValueOrEmpty | BeginStringOrEmpty | BeginString | EndValue | EndTop
  | InString | InStringEsc | InStringEscU | InStringEscU1 | InStringEscU12 | InStringEscU123
  | Neg | State1 | State0 | Dot | Dot0 | StateE | ESign | E0
  | StateT | Tr | Tru | StateF | Fa | Fal | Fals | StateN | Nu | Nul

datatype frame =
    ParseObjectKey "(string \<times> iface) list" "string option"
      \<comment> \<open>\<open>parseObjectKey\<close>: the members so far, and the key once its literal is read\<close>
  | ParseObjectValue "(string \<times> iface) list" "string option"
      \<comment> \<open>\<open>parseObjectValue\<close>: the members so far, and the key whose value is awaited\<close>
  | ParseArrayValue "iface list"
      \<comment> \<open>\<open>parseArrayValue\<close>: the elements so far\<close>

record scanner =
  step :: scan_state
  parseState :: "frame list"
  endTop :: bool
  lit :: string
  topValue :: "iface option"

definition maxNestingDepth :: nat where
  "maxNestingDepth = 10000"

definition isSpace :: "char \<Rightarrow> bool" where
  "isSpace c = (c = CHR '' '' \<or> c = CHR 0x09 \<or> c = CHR 0x0D \<or> c = CHR 0x0A)"

definition reset :: scanner where
  "reset = \<lparr>step = BeginValue, parseState = [], endTop = False, lit = [], topValue = None\<rparr>"

text \<open>
  A completed value goes where the decoder puts it: into the result at top level, at
  the end of the innermost open array, or into the innermost open object under the
  key read before it (a repeated key overwrites). A string completed where an object
  key is expected is the key.
\<close>

definition deliver :: "iface \<Rightarrow> scanner \<Rightarrow> scanner option" where
  "deliver v s =
     (case parseState s of
        [] \<Rightarrow> Some (s\<lparr>topValue := Some v\<rparr>)
      | ParseArrayValue items # fs \<Rightarrow> Some (s\<lparr>parseState := ParseArrayValue (items @ [v]) # fs\<rparr>)
      | ParseObjectValue ms (Some k) # fs \<Rightarrow>
          Some (s\<lparr>parseState := ParseObjectValue (map_assign ms k v) None # fs\<rparr>)
      | ParseObjectValue ms None # fs \<Rightarrow> None
      | ParseObjectKey ms (Some k) # fs \<Rightarrow> None
      | ParseObjectKey ms None # fs \<Rightarrow>
          (case v of
             GoString k \<Rightarrow> Some (s\<lparr>parseState := ParseObjectKey ms (Some k) # fs\<rparr>)
           | _ \<Rightarrow> None))"

definition pushParseState :: "frame \<Rightarrow> scan_state \<Rightarrow> scanner \<Rightarrow> scanner option" where
  "pushParseState f successState s =
     (if length (f # parseState s) \<le> maxNestingDepth
      then Some (s\<lparr>parseState := f # parseState s, step := successState\<rparr>)
      else None)"

definition popParseState :: "iface \<Rightarrow> scanner \<Rightarrow> scanner option" where
  \<comment> \<open>the innermost object or array is closed; \<open>v\<close> is its value\<close>
  "popParseState v s =
     (let fs = tl (parseState s)
      in if fs = [] then Some (s\<lparr>parseState := [], step := EndTop, endTop := True, topValue := Some v\<rparr>)
         else deliver v (s\<lparr>parseState := fs, step := EndValue\<rparr>))"

definition stateEndTop :: "scanner \<Rightarrow> char \<Rightarrow> scanner option" where
  "stateEndTop s c = (if \<not> isSpace c then None else Some s)"

definition stateEndValue :: "scanner \<Rightarrow> char \<Rightarrow> scanner option" where
  "stateEndValue s c =
     (case parseState s of
        [] \<Rightarrow> stateEndTop (s\<lparr>step := EndTop, endTop := True\<rparr>) c
      | f # fs \<Rightarrow>
          if isSpace c then Some (s\<lparr>step := EndValue\<rparr>)
          else
            (case f of
               ParseObjectKey ms k \<Rightarrow>
                 if c = CHR '':'' \<and> k \<noteq> None
                 then Some (s\<lparr>parseState := ParseObjectValue ms k # fs, step := BeginValue\<rparr>)
                 else None
             | ParseObjectValue ms k \<Rightarrow>
                 if c = CHR '','' then Some (s\<lparr>parseState := ParseObjectKey ms None # fs, step := BeginString\<rparr>)
                 else if c = CHR ''}'' then popParseState (GoMap ms) s
                 else None
             | ParseArrayValue items \<Rightarrow>
                 if c = CHR '','' then Some (s\<lparr>step := BeginValue\<rparr>)
                 else if c = CHR '']'' then popParseState (GoSlice items) s
                 else None))"

definition stateBeginValue :: "scanner \<Rightarrow> char \<Rightarrow> scanner option" where
  "stateBeginValue s c =
     (if isSpace c then Some s
      else if c = CHR ''{'' then pushParseState (ParseObjectKey [] None) BeginStringOrEmpty s
      else if c = CHR ''['' then pushParseState (ParseArrayValue []) BeginValueOrEmpty s
      else if c = CHR 0x22 then Some (s\<lparr>step := InString, lit := []\<rparr>)
      else if c = CHR ''-'' then Some (s\<lparr>step := Neg, lit := [c]\<rparr>)
      else if c = CHR ''0'' then Some (s\<lparr>step := State0, lit := [c]\<rparr>)
      else if c = CHR ''t'' then Some (s\<lparr>step := StateT\<rparr>)
      else if c = CHR ''f'' then Some (s\<lparr>step := StateF\<rparr>)
      else if c = CHR ''n'' then Some (s\<lparr>step := StateN\<rparr>)
      else if 49 \<le> byte c \<and> byte c \<le> 57 then Some (s\<lparr>step := State1, lit := [c]\<rparr>)
      else None)"

definition stateBeginValueOrEmpty :: "scanner \<Rightarrow> char \<Rightarrow> scanner option" where
  "stateBeginValueOrEmpty s c =
     (if isSpace c then Some s
      else if c = CHR '']'' then stateEndValue s c
      else stateBeginValue s c)"

definition stateBeginString :: "scanner \<Rightarrow> char \<Rightarrow> scanner option" where
  "stateBeginString s c =
     (if isSpace c then Some s
      else if c = CHR 0x22 then Some (s\<lparr>step := InString, lit := []\<rparr>)
      else None)"

definition stateBeginStringOrEmpty :: "scanner \<Rightarrow> char \<Rightarrow> scanner option" where
  "stateBeginStringOrEmpty s c =
     (if isSpace c then Some s
      else if c = CHR ''}'' then
        (case parseState s of
           ParseObjectKey ms k # fs \<Rightarrow> stateEndValue (s\<lparr>parseState := ParseObjectValue ms k # fs\<rparr>) c
         | _ \<Rightarrow> None)
      else stateBeginString s c)"

definition more :: "scan_state \<Rightarrow> scanner \<Rightarrow> char \<Rightarrow> scanner option" where
  \<comment> \<open>the byte belongs to the literal; go on in the given state\<close>
  "more st s c = Some (s\<lparr>step := st, lit := lit s @ [c]\<rparr>)"

definition endLiteral :: "iface \<Rightarrow> scanner \<Rightarrow> scanner option" where
  \<comment> \<open>the last byte of a string, \<open>true\<close>, \<open>false\<close> or \<open>null\<close> was read\<close>
  "endLiteral v s = deliver v (s\<lparr>step := EndValue\<rparr>)"

definition endNumber :: "scanner \<Rightarrow> char \<Rightarrow> scanner option" where
  \<comment> \<open>the byte is not part of the number: convert it, then \<open>stateEndValue(s, c)\<close>\<close>
  "endNumber s c =
     (case atof64 (lit s) of
        None \<Rightarrow> None
      | Some x \<Rightarrow>
          (case deliver (GoFloat64 x) s of
             None \<Rightarrow> None
           | Some s' \<Rightarrow> stateEndValue s' c))"

definition state0 :: "scanner \<Rightarrow> char \<Rightarrow> scanner option" where
  \<comment> \<open>after \<open>0\<close>, or after the digits of the integer part\<close>
  "state0 s c =
     (if c = CHR ''.'' then more Dot s c
      else if c = CHR ''e'' \<or> c = CHR ''E'' then more StateE s c
      else endNumber s c)"

definition stateESign :: "scanner \<Rightarrow> char \<Rightarrow> scanner option" where
  \<comment> \<open>after \<open>e\<close> and an optional sign: a digit must follow\<close>
  "stateESign s c = (if isDigit c then more E0 s c else None)"

definition isHex :: "char \<Rightarrow> bool" where
  "isHex c = (hexVal c \<noteq> None)"

definition scan_step :: "scanner \<Rightarrow> char \<Rightarrow> scanner option" where
  \<comment> \<open>\<open>s.step(s, c)\<close>\<close>
  "scan_step s c =
     (case step s of
        BeginValue \<Rightarrow> stateBeginValue s c
      | BeginValueOrEmpty \<Rightarrow> stateBeginValueOrEmpty s c
      | BeginStringOrEmpty \<Rightarrow> stateBeginStringOrEmpty s c
      | BeginString \<Rightarrow> stateBeginString s c
      | EndValue \<Rightarrow> stateEndValue s c
      | EndTop \<Rightarrow> stateEndTop s c
      | InString \<Rightarrow>
          if c = CHR 0x22 then
            (case unquote (lit s) of None \<Rightarrow> None | Some t \<Rightarrow> endLiteral (GoString t) s)
          else if c = CHR 0x5C then more InStringEsc s c
          else if byte c < 32 then None
          else more InString s c
      | InStringEsc \<Rightarrow>
          if c \<in> {CHR ''b'', CHR ''f'', CHR ''n'', CHR ''r'', CHR ''t'', CHR 0x5C, CHR ''/'', CHR 0x22}
          then more InString s c
          else if c = CHR ''u'' then more InStringEscU s c
          else None
      | InStringEscU \<Rightarrow> if isHex c then more InStringEscU1 s c else None
      | InStringEscU1 \<Rightarrow> if isHex c then more InStringEscU12 s c else None
      | InStringEscU12 \<Rightarrow> if isHex c then more InStringEscU123 s c else None
      | InStringEscU123 \<Rightarrow> if isHex c then more InString s c else None
      | Neg \<Rightarrow>
          if c = CHR ''0'' then more State0 s c
          else if 49 \<le> byte c \<and> byte c \<le> 57 then more State1 s c
          else None
      | State1 \<Rightarrow> if isDigit c then more State1 s c else state0 s c
      | State0 \<Rightarrow> state0 s c
      | Dot \<Rightarrow> if isDigit c then more Dot0 s c else None
      | Dot0 \<Rightarrow>
          if isDigit c then more Dot0 s c
          else if c = CHR ''e'' \<or> c = CHR ''E'' then more StateE s c
          else endNumber s c
      | StateE \<Rightarrow> if c = CHR ''+'' \<or> c = CHR ''-'' then more ESign s c else stateESign s c
      | ESign \<Rightarrow> stateESign s c
      | E0 \<Rightarrow> if isDigit c then more E0 s c else endNumber s c
      | StateT \<Rightarrow> if c = CHR ''r'' then Some (s\<lparr>step := Tr\<rparr>) else None
      | Tr \<Rightarrow> if c = CHR ''u'' then Some (s\<lparr>step := Tru\<rparr>) else None
      | Tru \<Rightarrow> if c = CHR ''e'' then endLiteral (GoBool True) s else None
      | StateF \<Rightarrow> if c = CHR ''a'' then Some (s\<lparr>step := Fa\<rparr>) else None
      | Fa \<Rightarrow> if c = CHR ''l'' then Some (s\<lparr>step := Fal\<rparr>) else None
      | Fal \<Rightarrow> if c = CHR ''s'' then Some (s\<lparr>step := Fals\<rparr>) else None
      | Fals \<Rightarrow> if c = CHR ''e'' then endLiteral (GoBool False) s else None
      | StateN \<Rightarrow> if c = CHR ''u'' then Some (s\<lparr>step := Nu\<rparr>) else None
      | Nu \<Rightarrow> if c = CHR ''l'' then Some (s\<lparr>step := Nul\<rparr>) else None
      | Nul \<Rightarrow> if c = CHR ''l'' then endLiteral GoNil s else None)"

fun scan_bytes :: "scanner \<Rightarrow> string \<Rightarrow> scanner option" where
  \<comment> \<open>the loop of \<open>checkValid\<close>: it stops at the first error\<close>
  "scan_bytes s [] = Some s"
| "scan_bytes s (c # data) =
     (case scan_step s c of
        None \<Rightarrow> None
      | Some s' \<Rightarrow> scan_bytes s' data)"

definition eof :: "scanner \<Rightarrow> iface option" where
  \<comment> \<open>\<open>scanner.eof\<close>: a pending number is ended by a space; the input must be complete\<close>
  "eof s =
     (if endTop s then topValue s
      else
        (case scan_step s (CHR '' '') of
           None \<Rightarrow> None
         | Some s' \<Rightarrow> if endTop s' then topValue s' else None))"

definition json_Unmarshal :: "string \<Rightarrow> iface option" where
  \<comment> \<open>the value stored through the pointer when the error is \<open>nil\<close>\<close>
  "json_Unmarshal data =
     (case scan_bytes reset data of
        None \<Rightarrow> None
      | Some s \<Rightarrow> eof s)"

subsection \<open>The marshalers of the stored numbers\<close>

text \<open>
  The JSON encoder calls \<open>MarshalJSON\<close> on a stored \<open>*big.Int\<close> and on a stored
  \<open>*bigFloat\<close>. \<open>Int.MarshalJSON\<close> returns \<open>x.abs.itoa(x.neg, 10)\<close>: the decimal
  digits, after a \<open>-\<close> for a negative number.
\<close>

fun utoa :: "nat \<Rightarrow> string" where
  "utoa n = (if n < 10 then [char_of (48 + n)] else utoa (n div 10) @ [char_of (48 + n mod 10)])"

definition Int_MarshalJSON :: "int \<Rightarrow> string" where
  "Int_MarshalJSON x = (if x < 0 then CHR ''-'' # utoa (nat (- x)) else utoa (nat x))"

text \<open>
  \<open>bigFloat.MarshalJSON\<close> (lines 144--146) returns \<open>Float.MarshalText\<close>, which is
  \<open>Float.Append(buf, 'g', -1)\<close>: the sign, then \<open>Inf\<close> for an infinity (after a \<open>+\<close>
  when it is positive), and otherwise the shortest decimal number that rounds to the
  value at its precision, in the format \<open>%e\<close> when the decimal exponent is below -4 or
  at least 6, and in the format \<open>%f\<close> otherwise.

  A \<open>decimal\<close> is \<open>0.mant * 10 ^ exp\<close>, its digits without trailing zeros.
  \<open>decimal.init(m, shift)\<close> is the exact decimal expansion of \<open>m * 2 ^ shift\<close>.
\<close>

fun trim :: "string \<Rightarrow> string" where
  \<comment> \<open>the digits without trailing zeros\<close>
  "trim ds = rev (dropWhile (\<lambda>c. c = CHR ''0'') (rev ds))"

definition decimal_init :: "nat \<Rightarrow> int \<Rightarrow> string \<times> int" where
  "decimal_init m shift =
     (if m = 0 then ([], 0)
      else
        let ds = utoa (m * 2 ^ nat shift * 5 ^ nat (- shift))
        in (trim ds, int (length ds) + (if shift < 0 then shift else 0)))"

definition digit_at :: "string \<Rightarrow> nat \<Rightarrow> char" where
  \<comment> \<open>\<open>decimal.at\<close>\<close>
  "digit_at ds i = (if i < length ds then ds ! i else CHR ''0'')"

definition roundDown :: "string \<times> int \<Rightarrow> nat \<Rightarrow> string \<times> int" where
  "roundDown d n = (if n \<ge> length (fst d) then d else (trim (take n (fst d)), snd d))"

definition roundUp :: "string \<times> int \<Rightarrow> nat \<Rightarrow> string \<times> int" where
  \<comment> \<open>the first \<open>n\<close> digits, incremented: trailing nines are dropped, all nines give \<open>1\<close>\<close>
  "roundUp d n =
     (if n \<ge> length (fst d) then d
      else
        let ds = rev (dropWhile (\<lambda>c. byte c \<ge> 57) (rev (take n (fst d))))
        in if ds = [] then (''1'', snd d + 1)
           else (butlast ds @ [char_of (byte (last ds) + 1)], snd d))"

definition shouldRoundUp :: "string \<Rightarrow> nat \<Rightarrow> bool" where
  "shouldRoundUp ds n =
     (if ds ! n = CHR ''5'' \<and> n + 1 = length ds
      then n > 0 \<and> odd (digitVal (ds ! (n - 1)))
      else byte (ds ! n) \<ge> 53)"

definition decimal_round :: "string \<times> int \<Rightarrow> nat \<Rightarrow> string \<times> int" where
  "decimal_round d n =
     (if n \<ge> length (fst d) then d
      else if shouldRoundUp (fst d) n then roundUp d n else roundDown d n)"

text \<open>
  \<open>roundShortest\<close>: \<open>lower\<close> and \<open>upper\<close> are the decimal expansions of the value
  minus and plus half a unit in the last place; the bounds themselves are allowed
  when the mantissa is even. The loop walks the digits of \<open>d\<close> until one of them
  can be rounded without leaving the interval. Its arguments are the digits of
  \<open>lower\<close> and \<open>upper\<close>, \<open>inclusive\<close>, the decimal \<open>d\<close>, the index \<open>i\<close> and the digits of
  \<open>d\<close> from \<open>i\<close> on.
\<close>

fun shortest_loop :: "string \<Rightarrow> string \<Rightarrow> bool \<Rightarrow> string \<times> int \<Rightarrow> nat \<Rightarrow> string \<Rightarrow> string \<times> int" where
  "shortest_loop lower upper inclusive d i [] = d"
| "shortest_loop lower upper inclusive d i (m # ms) =
     (let l = digit_at lower i;
          u = digit_at upper i;
          okdown = (l \<noteq> m \<or> inclusive \<and> i + 1 = length lower);
          okup = (m \<noteq> u \<and> (inclusive \<or> byte m + 1 < byte u \<or> i + 1 < length upper))
      in if okdown \<and> okup then decimal_round d (i + 1)
         else if okdown then roundDown d (i + 1)
         else if okup then roundUp d (i + 1)
         else shortest_loop lower upper inclusive d (i + 1) ms)"

definition roundShortest :: "nat \<Rightarrow> int \<Rightarrow> string \<times> int" where
  \<comment> \<open>for the finite value \<open>mant * 2 ^ (exp - 256)\<close> of precision 256\<close>
  "roundShortest mant exp =
     (let d = decimal_init mant (exp - 256);
          lower = decimal_init (2 * mant - 1) (exp - 257);
          upper = decimal_init (2 * mant + 1) (exp - 257)
      in shortest_loop (fst lower) (fst upper) (even mant) d 0 (fst d))"

definition fmtE :: "nat \<Rightarrow> string \<times> int \<Rightarrow> string" where
  \<comment> \<open>\<open>%e\<close>: \<open>d.ddddde\<plusminus>dd\<close> with \<open>prec\<close> digits after the point\<close>
  "fmtE prec d =
     (let ds = fst d;
          ex = (if ds = [] then 0 else snd d - 1)
      in [digit_at ds 0]
         @ (if prec > 0 then CHR ''.'' # map (digit_at ds) [1..<prec + 1] else [])
         @ [CHR ''e'', if ex < 0 then CHR ''-'' else CHR ''+'']
         @ (if \<bar>ex\<bar> < 10 then ''0'' else [])
         @ utoa (nat \<bar>ex\<bar>))"

definition fmtF :: "nat \<Rightarrow> string \<times> int \<Rightarrow> string" where
  \<comment> \<open>\<open>%f\<close>: \<open>ddddddd.ddddd\<close> with \<open>prec\<close> digits after the point\<close>
  "fmtF prec d =
     (let ds = fst d; ex = snd d
      in (if ex > 0 then map (digit_at ds) [0..<nat ex] else ''0'')
         @ (if prec > 0
            then CHR ''.'' # map (\<lambda>i. if ex + int i < 0 then CHR ''0'' else digit_at ds (nat (ex + int i))) [0..<prec]
            else []))"

definition fmtG :: "string \<times> int \<Rightarrow> string" where
  \<comment> \<open>the case \<open>'g'\<close> of \<open>Float.Append\<close> for the shortest representation\<close>
  "fmtG d =
     (let prec = length (fst d);
          ex = snd d - 1
      in if ex < - 4 \<or> ex \<ge> 6 then fmtE (prec - 1) d
         else fmtF (nat (int (if int prec > snd d then length (fst d) else prec) - snd d)) d)"

definition Float_MarshalText :: "Float \<Rightarrow> string" where
  "Float_MarshalText x =
     (case x of
        Float_inf neg \<Rightarrow> (if neg then ''-Inf'' else ''+Inf'')
      | Float_zero neg \<Rightarrow> (if neg then ''-'' else []) @ fmtG ([], 0)
      | Float_finite neg mant exp \<Rightarrow> (if neg then ''-'' else []) @ fmtG (roundShortest mant exp))"

definition bigFloat_MarshalJSON :: "Float \<Rightarrow> string" where
  \<comment> \<open>\<open>return b.Float().MarshalText()\<close>; the error is always \<open>nil\<close>\<close>
  "bigFloat_MarshalJSON b = Float_MarshalText b"

subsection \<open>\<open>typedValues\<close> and \<open>Add\<close>\<close>

text \<open>
  \<open>type typedValues map[string][]interface{}\<close> (line 136). A Go map value is either
  \<open>nil\<close> or an allocated map; \<open>newTypedValues\<close> (lines 41--43) returns the allocated
  empty map \<open>typedValues{}\<close>, the only collection the program creates.
\<close>

datatype typedValues = NilMap | MapOf "string \<rightharpoonup> iface list"

definition newTypedValues :: typedValues where
  "newTypedValues = MapOf Map.empty"

text \<open>Reading \<open>v[key]\<close>: the stored slice, or the nil slice for a missing key or a nil map.\<close>

fun index :: "typedValues \<Rightarrow> string \<Rightarrow> iface list" where
  "index NilMap key = []"
| "index (MapOf m) key = (case m key of None \<Rightarrow> [] | Some xs \<Rightarrow> xs)"

text \<open>
  Lines 149--159 of \<open>Add\<close>: the value of \<open>jsval\<close> when line 160 is reached.
  \<open>SetString\<close> reports success by its boolean, the other three calls by a \<open>nil\<close>
  error. When \<open>json.Unmarshal\<close> succeeds, \<open>jsval\<close> is what it stored through the
  pointer; when it fails, whatever it stored is overwritten by \<open>jsval = value\<close>.
\<close>

definition coercion :: "string \<Rightarrow> iface" where
  "coercion value =
     (case big_Int_SetString value of
        Some ival \<Rightarrow> GoBigInt ival
      | None \<Rightarrow>
     (case big_ParseFloat value of
        Inr fval \<Rightarrow> GoBigFloat fval
      | Inl err \<Rightarrow>
     (case strconv_ParseBool value of
        Some bval \<Rightarrow> GoBool bval
      | None \<Rightarrow>
     (case json_Unmarshal value of
        Some parsed \<Rightarrow> parsed
      | None \<Rightarrow> GoString value))))"

text \<open>
  Line 160: \<open>v[key] = append(v[key], jsval)\<close>. Assigning to an entry of a \<open>nil\<close> map
  panics; on an allocated map the entry for \<open>key\<close> becomes the old slice followed by
  \<open>jsval\<close>. The method mutates the map in place; the model returns the new map.
\<close>

datatype panic = AssignmentToEntryInNilMap

fun Add :: "typedValues \<Rightarrow> string \<Rightarrow> string \<Rightarrow> panic + typedValues" where
  "Add NilMap key value = Inl AssignmentToEntryInNilMap"
| "Add (MapOf m) key value = Inr (MapOf (m(key \<mapsto> index (MapOf m) key @ [coercion value])))"


subsection \<open>The classification as the specification words it\<close>

text \<open>
  The specification describes the stored value as a tagged union with five cases and
  the classification as "first match wins" over a priority list. \<open>accepts t value\<close>
  is what the parser of case \<open>t\<close> alone makes of the value; \<open>first_match\<close> walks a
  list of cases and stops at the first one that accepts.
\<close>

datatype tag = TInteger | TDecimal | TBoolean | TJSON | TString

fun accepts :: "tag \<Rightarrow> string \<Rightarrow> iface option" where
  "accepts TInteger value = map_option GoBigInt (big_Int_SetString value)"
| "accepts TDecimal value =
     (case big_ParseFloat value of Inr fval \<Rightarrow> Some (GoBigFloat fval) | Inl err \<Rightarrow> None)"
| "accepts TBoolean value = map_option GoBool (strconv_ParseBool value)"
| "accepts TJSON value = json_Unmarshal value"
| "accepts TString value = Some (GoString value)"

fun first_match :: "tag list \<Rightarrow> string \<Rightarrow> (tag \<times> iface) option" where
  "first_match [] value = None"
| "first_match (t # ts) value =
     (case accepts t value of
        Some x \<Rightarrow> Some (t, x)
      | None \<Rightarrow> first_match ts value)"

definition priority :: "tag list" where
  "priority = [TInteger, TDecimal, TBoolean, TJSON, TString]"

section \<open>Properties of \<open>Add\<close>\<close>

subsection \<open>The order of the classification\<close>

text \<open>
  Claim C1. For every value, \<open>Add\<close> tries the integer parser, the 256-bit decimal
  parser, the boolean parser, the JSON parser and the string fallback in this order;
  the first one that accepts determines the stored value, and exactly one of the five
  cases is chosen: the cascade of lines 150--159 is the first match over the priority
  list, and the case it stops at is unique.
\<close>

theorem coercion_first_match:
  "\<exists>!t. first_match priority value = Some (t, coercion value)"
  by (auto simp: priority_def coercion_def split: option.splits sum.splits)

subsection \<open>Appending under a key\<close>

text \<open>
  Claim C2. On a collection with no entry for the key, \<open>Add(k, v1)\<close> stores the
  one-element sequence of the coerced \<open>v1\<close>, and a following \<open>Add(k, v2)\<close> stores
  the coerced \<open>v1\<close> followed by the coerced \<open>v2\<close>. On every collection, \<open>Add\<close> stores
  the old sequence followed by the new value: it appends and never overwrites, and
  the entry is a non-empty sequence, never a bare value.
\<close>

theorem Add_same_key:
  "(m k = None \<longrightarrow>
      (\<exists>m1 m2. Add (MapOf m) k v1 = Inr (MapOf m1) \<and> m1 k = Some [coercion v1]
         \<and> Add (MapOf m1) k v2 = Inr (MapOf m2) \<and> m2 k = Some [coercion v1, coercion v2]))
   \<and> (\<exists>m'. Add (MapOf m) k v = Inr (MapOf m')
         \<and> m' k = Some (index (MapOf m) k @ [coercion v]) \<and> m' k \<noteq> Some [])"
  by auto

theorem Add_same_key_witness:
  "\<exists>m1 m2. Add newTypedValues ''k'' ''a'' = Inr (MapOf m1) \<and> m1 ''k'' = Some [coercion ''a'']
     \<and> Add (MapOf m1) ''k'' ''b'' = Inr (MapOf m2)
     \<and> m2 ''k'' = Some [coercion ''a'', coercion ''b'']"
  using Add_same_key [of Map.empty "''k''" "''a''" "''b''"]
  by (simp add: newTypedValues_def)

subsection \<open>Totality\<close>



subsection \<open>Frame\<close>

text \<open>
  Claim C9. A call \<open>Add(k, v)\<close> appends exactly one element to the sequence of \<open>k\<close>:
  the new sequence is the old one followed by the coerced value, one element longer,
  with every earlier element unchanged at its position; the sequence of every other
  key is unchanged.
\<close>

theorem Add_frame:
  "\<exists>m'. Add (MapOf m) key value = Inr (MapOf m')
     \<and> index (MapOf m') key = index (MapOf m) key @ [coercion value]
     \<and> length (index (MapOf m') key) = length (index (MapOf m) key) + 1
     \<and> (\<forall>k. k \<noteq> key \<longrightarrow> m' k = m k \<and> index (MapOf m') k = index (MapOf m) k)
     \<and> (\<forall>i < length (index (MapOf m) key). index (MapOf m') key ! i = index (MapOf m) key ! i)"
  by (auto simp: nth_append)

theorem Add_frame_witness:
  "\<exists>m'. Add (MapOf [''a'' \<mapsto> [GoNil], ''b'' \<mapsto> [GoBool True]]) ''b'' ''x'' = Inr (MapOf m')
     \<and> index (MapOf m') ''b'' = [GoBool True, coercion ''x'']
     \<and> index (MapOf m') ''b'' ! 0 = GoBool True
     \<and> m' ''a'' = Some [GoNil]"
  using Add_frame [of "[''a'' \<mapsto> [GoNil], ''b'' \<mapsto> [GoBool True]]" "''b''" "''x''"]
  by auto

end
